theory Spec2Isabelle
  imports Complex_Main
begin

section \<open>The store: tables of bot/database.py\<close>

text \<open>
  The SQLite database of \<^verbatim>\<open>Database\<close> is a record of its five tables. A table is the
  list of its rows in insertion order; \<^verbatim>\<open>users\<close>, whose primary key \<^verbatim>\<open>user_id\<close> is given
  by the caller and written with \<^verbatim>\<open>INSERT OR REPLACE\<close>, is a map from that key to the rest
  of the row. Every other table has an \<^verbatim>\<open>AUTOINCREMENT\<close> key: the store keeps the last key
  handed out per table (SQLite's \<^verbatim>\<open>sqlite_sequence\<close>), so a key is never used twice, also
  after a row is deleted.

  Assumptions of the model, none of them in the Python source itself:
  \<^item> every method runs to its end before the next one starts (one call is one step);
  \<^item> Python integers and SQLite \<^verbatim>\<open>INTEGER\<close> columns are unbounded integers (the 64-bit
    range of the column type is not modelled);
  \<^item> the \<^verbatim>\<open>FOREIGN KEY\<close> clauses are not enforced: the source never issues
    \<^verbatim>\<open>PRAGMA foreign_keys = ON\<close>, and SQLite ignores them without it;
  \<^item> \<^verbatim>\<open>CURRENT_TIMESTAMP\<close> is read from the field \<open>current_timestamp\<close> of the store,
    which no method changes;
  \<^item> text is a list of 8-bit characters.
\<close>

type_synonym timestamp = string

record user_row =
  username :: "string option"
  first_name :: "string option"
  last_name :: "string option"
  u_is_admin :: int
  registered_at :: timestamp

record activity_row =
  activity_id :: int
  name :: string
  description :: string
  date_time :: string
  max_capacity :: int
  a_is_active :: int

record booking_row =
  booking_id :: int
  b_user_id :: int
  b_activity_id :: int
  booked_at :: timestamp

record poll_row =
  poll_id :: int
  question :: string
  options :: "string list"
  created_at :: timestamp
  p_is_active :: int

record vote_row =
  vote_id :: int
  v_poll_id :: int
  v_user_id :: int
  option_index :: int
  voted_at :: timestamp

record db =
  users :: "int \<rightharpoonup> user_row"
  activities :: "activity_row list"
  activities_seq :: int
  bookings :: "booking_row list"
  bookings_seq :: int
  polls :: "poll_row list"
  polls_seq :: int
  poll_votes :: "vote_row list"
  poll_votes_seq :: int
  current_timestamp :: timestamp

text \<open>The store after \<^verbatim>\<open>init_db\<close> on a new file: every table empty.\<close>

definition init_db :: "timestamp \<Rightarrow> db" where
  "init_db t =
     \<lparr>users = Map.empty, activities = [], activities_seq = 0, bookings = [],
      bookings_seq = 0, polls = [], polls_seq = 0, poll_votes = [], poll_votes_seq = 0,
      current_timestamp = t\<rparr>"

subsection \<open>Users and activities\<close>

definition add_user ::
  "db \<Rightarrow> int \<Rightarrow> string option \<Rightarrow> string option \<Rightarrow> string option \<Rightarrow> bool \<Rightarrow> db" where
  "add_user s uid uname fname lname admin =
     s\<lparr>users := (users s)(uid \<mapsto>
        \<lparr>username = uname, first_name = fname, last_name = lname,
         u_is_admin = (if admin then 1 else 0), registered_at = current_timestamp s\<rparr>)\<rparr>"

text \<open>\<^verbatim>\<open>add_activity\<close> returns \<^verbatim>\<open>cursor.lastrowid\<close>, the key of the new row.\<close>

definition add_activity :: "db \<Rightarrow> string \<Rightarrow> string \<Rightarrow> string \<Rightarrow> int \<Rightarrow> int \<times> db" where
  "add_activity s nm descr dt cap =
     (let new_id = activities_seq s + 1 in
      (new_id,
       s\<lparr>activities := activities s @
            [\<lparr>activity_id = new_id, name = nm, description = descr, date_time = dt,
              max_capacity = cap, a_is_active = 1\<rparr>],
         activities_seq := new_id\<rparr>))"

definition get_activity :: "db \<Rightarrow> int \<Rightarrow> activity_row option" where
  "get_activity s aid = find (\<lambda>a. activity_id a = aid) (activities s)"

subsection \<open>Bookings\<close>

definition get_booking_count :: "db \<Rightarrow> int \<Rightarrow> nat" where
  "get_booking_count s aid = length (filter (\<lambda>b. b_activity_id b = aid) (bookings s))"

definition is_user_booked :: "db \<Rightarrow> int \<Rightarrow> int \<Rightarrow> bool" where
  "is_user_booked s uid aid =
     (\<exists>b \<in> set (bookings s). b_user_id b = uid \<and> b_activity_id b = aid)"

text \<open>
  \<^verbatim>\<open>create_booking\<close>: count the activity's bookings, read its capacity (no row: return
  \<^verbatim>\<open>False\<close>), refuse at or above the capacity, then insert. The \<^verbatim>\<open>UNIQUE(user_id,
  activity_id)\<close> constraint makes the insert raise \<^verbatim>\<open>IntegrityError\<close> when the pair is
  already in the table; the method catches it and returns \<^verbatim>\<open>False\<close>, nothing committed.
\<close>

definition create_booking :: "db \<Rightarrow> int \<Rightarrow> int \<Rightarrow> bool \<times> db" where
  "create_booking s uid aid =
     (let current_count = length (filter (\<lambda>b. b_activity_id b = aid) (bookings s)) in
      case find (\<lambda>a. activity_id a = aid) (activities s) of
        None \<Rightarrow> (False, s)
      | Some row \<Rightarrow>
          if int current_count \<ge> max_capacity row then (False, s)
          else if \<exists>b \<in> set (bookings s). b_user_id b = uid \<and> b_activity_id b = aid
            then (False, s)
          else
            (True,
             s\<lparr>bookings := bookings s @
                  [\<lparr>booking_id = bookings_seq s + 1, b_user_id = uid, b_activity_id = aid,
                    booked_at = current_timestamp s\<rparr>],
               bookings_seq := bookings_seq s + 1\<rparr>))"

text \<open>
  \<^verbatim>\<open>cancel_booking\<close>: delete the rows of the pair and return \<^verbatim>\<open>cursor.rowcount > 0\<close>.
\<close>

definition cancel_booking :: "db \<Rightarrow> int \<Rightarrow> int \<Rightarrow> bool \<times> db" where
  "cancel_booking s uid aid =
     (let kept = filter (\<lambda>b. \<not> (b_user_id b = uid \<and> b_activity_id b = aid)) (bookings s);
          rowcount = length (bookings s) - length kept
      in (rowcount > 0, s\<lparr>bookings := kept\<rparr>))"

text \<open>
  \<^verbatim>\<open>get_activity_bookings\<close>: the bookings of an activity, inner-joined with \<^verbatim>\<open>users\<close> on
  \<^verbatim>\<open>user_id\<close>. A booking with no row in \<^verbatim>\<open>users\<close> produces no row of the join.
\<close>

definition get_activity_bookings :: "db \<Rightarrow> int \<Rightarrow> (booking_row \<times> user_row) list" where
  "get_activity_bookings s aid =
     concat (map (\<lambda>b. case users s (b_user_id b) of None \<Rightarrow> [] | Some u \<Rightarrow> [(b, u)])
                 (filter (\<lambda>b. b_activity_id b = aid) (bookings s)))"

subsection \<open>Polls\<close>

text \<open>
  The options of a poll are stored as JSON text (\<^verbatim>\<open>json.dumps\<close>) and read back with
  \<^verbatim>\<open>json.loads\<close>; the model keeps the list of strings itself.
\<close>

definition create_poll :: "db \<Rightarrow> string \<Rightarrow> string list \<Rightarrow> int \<times> db" where
  "create_poll s q opts =
     (let new_id = polls_seq s + 1 in
      (new_id,
       s\<lparr>polls := polls s @
            [\<lparr>poll_id = new_id, question = q, options = opts,
              created_at = current_timestamp s, p_is_active = 1\<rparr>],
         polls_seq := new_id\<rparr>))"

definition get_poll :: "db \<Rightarrow> int \<Rightarrow> poll_row option" where
  "get_poll s pid = find (\<lambda>p. poll_id p = pid) (polls s)"

text \<open>
  \<^verbatim>\<open>vote_poll\<close>: insert the vote; \<^verbatim>\<open>UNIQUE(poll_id, user_id)\<close> turns a second vote of the
  pair into an \<^verbatim>\<open>IntegrityError\<close>, which the method answers with \<^verbatim>\<open>False\<close>. Neither the
  poll nor the option index is looked at.
\<close>

definition vote_poll :: "db \<Rightarrow> int \<Rightarrow> int \<Rightarrow> int \<Rightarrow> bool \<times> db" where
  "vote_poll s pid uid idx =
     (if \<exists>v \<in> set (poll_votes s). v_poll_id v = pid \<and> v_user_id v = uid then (False, s)
      else
        (True,
         s\<lparr>poll_votes := poll_votes s @
              [\<lparr>vote_id = poll_votes_seq s + 1, v_poll_id = pid, v_user_id = uid,
                option_index = idx, voted_at = current_timestamp s\<rparr>],
           poll_votes_seq := poll_votes_seq s + 1\<rparr>))"

text \<open>
  \<^verbatim>\<open>get_poll_results\<close>: one entry per option index that has a vote (\<^verbatim>\<open>GROUP BY\<close>), as a
  dictionary, here the list of its items with distinct keys.
\<close>

definition get_poll_results :: "db \<Rightarrow> int \<Rightarrow> (int \<times> nat) list" where
  "get_poll_results s pid =
     (let voted = map option_index (filter (\<lambda>v. v_poll_id v = pid) (poll_votes s))
      in map (\<lambda>i. (i, count_list voted i)) (sort (remdups voted)))"

definition close_poll :: "db \<Rightarrow> int \<Rightarrow> db" where
  "close_poll s pid =
     s\<lparr>polls := map (\<lambda>p. if poll_id p = pid then p\<lparr>p_is_active := 0\<rparr> else p) (polls s)\<rparr>"

subsection \<open>Sequences of calls\<close>

datatype call =
    AddUser int "string option" "string option" "string option" bool
  | AddActivity string string string int
  | Book int int
  | Cancel int int
  | CreatePoll string "string list"
  | Vote int int int
  | ClosePoll int
  | Elapse timestamp

text \<open>
  One call on the store; \<open>Book u a\<close> is \<^verbatim>\<open>create_booking(u, a)\<close>, \<open>Cancel u a\<close> is
  \<^verbatim>\<open>cancel_booking(u, a)\<close>, \<open>Vote p u i\<close> is \<^verbatim>\<open>vote_poll(p, u, i)\<close>. \<open>Elapse t\<close> is no
  method: the clock moves on between two calls.
\<close>

fun exec :: "db \<Rightarrow> call \<Rightarrow> db" where
  "exec s (AddUser uid uname fname lname admin) = add_user s uid uname fname lname admin"
| "exec s (AddActivity nm descr dt cap) = snd (add_activity s nm descr dt cap)"
| "exec s (Book uid aid) = snd (create_booking s uid aid)"
| "exec s (Cancel uid aid) = snd (cancel_booking s uid aid)"
| "exec s (CreatePoll q opts) = snd (create_poll s q opts)"
| "exec s (Vote pid uid idx) = snd (vote_poll s pid uid idx)"
| "exec s (ClosePoll pid) = close_poll s pid"
| "exec s (Elapse t) = s\<lparr>current_timestamp := t\<rparr>"

fun run :: "db \<Rightarrow> call list \<Rightarrow> db" where
  "run s [] = s"
| "run s (c # cs) = run (exec s c) cs"

section \<open>Python values used by the handlers\<close>

datatype py_exception = KeyError | IndexError | ZeroDivisionError | TypeError

text \<open>\<^verbatim>\<open>xs[i]\<close> on a list: a negative index counts from the end.\<close>

definition list_getitem :: "'a list \<Rightarrow> int \<Rightarrow> py_exception + 'a" where
  "list_getitem xs i =
     (if 0 \<le> i \<and> i < int (length xs) then Inr (xs ! nat i)
      else if - int (length xs) \<le> i \<and> i < 0 then Inr (xs ! nat (i + int (length xs)))
      else Inl IndexError)"

text \<open>\<^verbatim>\<open>d.get(k, default)\<close> and \<^verbatim>\<open>sum(d.values())\<close> on a dictionary given by its items.\<close>

definition dict_get :: "('k \<times> 'v) list \<Rightarrow> 'k \<Rightarrow> 'v \<Rightarrow> 'v" where
  "dict_get d k dflt = (case map_of d k of None \<Rightarrow> dflt | Some v \<Rightarrow> v)"

definition sum_values :: "('k \<times> nat) list \<Rightarrow> nat" where
  "sum_values d = sum_list (map snd d)"

text \<open>
  \<^verbatim>\<open>a / b\<close> on integers. The source computes in floating point; the model carries the
  exact quotient, and raises where Python raises.
\<close>

definition truediv :: "int \<Rightarrow> int \<Rightarrow> py_exception + rat" where
  "truediv a b = (if b = 0 then Inl ZeroDivisionError else Inr (of_int a / of_int b))"








section \<open>Handlers\<close>

subsection \<open>bot/handlers/booking.py\<close>

text \<open>
  The three alerts \<^verbatim>\<open>book_activity\<close> can answer with: booked, already booked on this
  activity, all places taken. The handler receives the user and the activity id parsed
  from the callback data; after a success it also redraws the activity, which reads the
  store and writes nothing.
\<close>

datatype book_answer = Booked | AlreadyBooked | AllPlacesTaken

definition book_activity :: "db \<Rightarrow> int \<Rightarrow> int \<Rightarrow> book_answer \<times> db" where
  "book_activity s uid aid =
     (let (success, s') = create_booking s uid aid in
      if success then (Booked, s')
      else if is_user_booked s' uid aid then (AlreadyBooked, s')
      else (AllPlacesTaken, s'))"

subsection \<open>bot/handlers/polls.py\<close>

text \<open>
  \<^verbatim>\<open>vote_in_poll\<close> answers with the chosen option's label, with a plain "vote accepted",
  or with "you have already voted". It votes first and reads the poll afterwards, so an
  \<^verbatim>\<open>IndexError\<close> of \<^verbatim>\<open>poll['options'][option_index]\<close> leaves the handler after the vote
  was committed.
\<close>

datatype vote_answer = VotedFor string | VoteAccepted | AlreadyVoted

definition vote_in_poll :: "db \<Rightarrow> int \<Rightarrow> int \<Rightarrow> int \<Rightarrow> (py_exception + vote_answer) \<times> db" where
  "vote_in_poll s uid pid idx =
     (let (success, s') = vote_poll s pid uid idx in
      if success then
        (case get_poll s' pid of
           None \<Rightarrow> (Inr VoteAccepted, s')
         | Some poll \<Rightarrow>
             if p_is_active poll \<noteq> 0 then
               (case list_getitem (options poll) idx of
                  Inl e \<Rightarrow> (Inl e, s')
                | Inr selected_option \<Rightarrow> (Inr (VotedFor selected_option), s'))
             else (Inr VoteAccepted, s'))
      else (Inr AlreadyVoted, s'))"

text \<open>
  \<^verbatim>\<open>show_poll_results\<close>: "poll not found", "nobody has voted yet", or one line per option
  (label, percentage, votes) in the order of the options, followed by the total.
\<close>

datatype results_view =
    PollNotFound
  | NobodyVoted
  | OptionLines "(string \<times> rat \<times> nat) list" nat

fun option_lines ::
  "(int \<times> nat) list \<Rightarrow> nat \<Rightarrow> nat \<Rightarrow> string list \<Rightarrow> py_exception + (string \<times> rat \<times> nat) list" where
  "option_lines results total_votes i [] = Inr []"
| "option_lines results total_votes i (opt # rest) =
     (let votes = dict_get results (int i) 0 in
      case (if total_votes > 0
            then (case truediv (int votes) (int total_votes) of
                    Inl e \<Rightarrow> Inl e | Inr q \<Rightarrow> Inr (q * 100))
            else Inr 0) of
        Inl e \<Rightarrow> Inl e
      | Inr percentage \<Rightarrow>
          (case option_lines results total_votes (Suc i) rest of
             Inl e \<Rightarrow> Inl e
           | Inr ls \<Rightarrow> Inr ((opt, percentage, votes) # ls)))"

definition show_poll_results :: "db \<Rightarrow> int \<Rightarrow> py_exception + results_view" where
  "show_poll_results s pid =
     (case get_poll s pid of
        None \<Rightarrow> Inr PollNotFound
      | Some poll \<Rightarrow>
          (let results = get_poll_results s pid;
               total_votes = sum_values results
           in if total_votes = 0 then Inr NobodyVoted
              else (case option_lines results total_votes 0 (options poll) of
                      Inl e \<Rightarrow> Inl e
                    | Inr ls \<Rightarrow> Inr (OptionLines ls total_votes))))"

subsection \<open>bot/handlers/admin.py: the activity form\<close>

datatype admin_state =
    waiting_broadcast_message
  | waiting_activity_name
  | waiting_activity_description
  | waiting_activity_datetime
  | waiting_activity_capacity




text \<open>\<^verbatim>\<open>ADMIN_IDS\<close> is read from the environment at start-up; the handlers take it as given.\<close>

definition is_admin :: "int list \<Rightarrow> int \<Rightarrow> bool" where
  "is_admin admin_ids uid = (uid \<in> set admin_ids)"








subsection \<open>bot/handlers/admin.py: the export of an activity's bookings\<close>

text \<open>\<^verbatim>\<open>value or ''\<close> on an optional string.\<close>

definition or_empty :: "string option \<Rightarrow> string" where
  "or_empty v = (case v of None \<Rightarrow> [] | Some t \<Rightarrow> t)"

text \<open>
  The data rows of the CSV file: the ordinal from 1, first name, last name, username,
  user id and booking time of each row of the listing.
\<close>

definition export_rows ::
  "(booking_row \<times> user_row) list \<Rightarrow> (nat \<times> string \<times> string \<times> string \<times> int \<times> timestamp) list" where
  "export_rows listing =
     map (\<lambda>(i, (b, u)).
            (i, or_empty (first_name u), or_empty (last_name u), or_empty (username u),
             b_user_id b, booked_at b))
         (enumerate 1 listing)"

text \<open>
  \<^verbatim>\<open>export_bookings\<close> answers "access denied" to a user who is no administrator
  (\<open>None\<close>); otherwise it sends the file named after the activity, with the rows and the
  caption's total \<^verbatim>\<open>len(bookings)\<close>. \<^verbatim>\<open>activity['name']\<close> on a missing activity raises
  \<^verbatim>\<open>TypeError\<close>.
\<close>

definition export_bookings ::
  "int list \<Rightarrow> int \<Rightarrow> db \<Rightarrow> int \<Rightarrow>
     py_exception + (string \<times> (nat \<times> string \<times> string \<times> string \<times> int \<times> timestamp) list \<times> nat) option"
  where
  "export_bookings admin_ids uid s aid =
     (if \<not> is_admin admin_ids uid then Inr None
      else
        (let activity = get_activity s aid;
             listing = get_activity_bookings s aid;
             rows = export_rows listing
         in case activity of
              None \<Rightarrow> Inl TypeError
            | Some a \<Rightarrow> Inr (Some (name a, rows, length listing))))"

section \<open>Predicates and example stores\<close>


text \<open>The (user, activity) pairs of the bookings, one per row.\<close>

definition booking_pairs :: "db \<Rightarrow> (int \<times> int) list" where
  "booking_pairs s = map (\<lambda>b. (b_user_id b, b_activity_id b)) (bookings s)"

text \<open>The user has a row in \<^verbatim>\<open>poll_votes\<close> for the poll id.\<close>

definition has_voted :: "db \<Rightarrow> int \<Rightarrow> int \<Rightarrow> bool" where
  "has_voted s pid uid = (\<exists>v \<in> set (poll_votes s). v_poll_id v = pid \<and> v_user_id v = uid)"

text \<open>The number of vote rows of a poll id for one option index, and for all of them.\<close>

definition votes_for :: "db \<Rightarrow> int \<Rightarrow> int \<Rightarrow> nat" where
  "votes_for s pid i =
     length (filter (\<lambda>v. v_poll_id v = pid \<and> option_index v = i) (poll_votes s))"

definition votes_cast :: "db \<Rightarrow> int \<Rightarrow> nat" where
  "votes_cast s pid = length (filter (\<lambda>v. v_poll_id v = pid) (poll_votes s))"

text \<open>
  A store with one user, the activities 1 (one place) and 2 (two places) and the poll 1
  with the options A and B.
\<close>

definition sample_db :: db where
  "sample_db =
     run (init_db ''2024-05-01 09:00:00'')
       [AddUser 1 (Some ''ann'') (Some ''Ann'') None False,
        AddActivity ''Workshop'' ''Hands-on'' ''15 May, 14:00'' 1,
        AddActivity ''Tour'' ''City tour'' ''16 May, 10:00'' 2,
        CreatePoll ''Lunch?'' [''A'', ''B'']]"

text \<open>The row of activity 1 in the sample store, and a run of calls on that activity.\<close>

definition workshop :: activity_row where
  "workshop = \<lparr>activity_id = 1, name = ''Workshop'', description = ''Hands-on'',
     date_time = ''15 May, 14:00'', max_capacity = 1, a_is_active = 1\<rparr>"

definition rush :: "call list" where
  "rush = [Book 1 1, Book 2 1, Cancel 1 1, Book 3 1, Book 2 1]"

text \<open>The sample store after user 1 took the only place of activity 1.\<close>

definition full_db :: db where
  "full_db = run sample_db [Book 1 1]"

text \<open>The sample store after user 7 voted for the option of index 1 in poll 1.\<close>

definition voted_db :: db where
  "voted_db = run sample_db [Vote 1 7 1]"

definition lunch_poll :: poll_row where
  "lunch_poll = \<lparr>poll_id = 1, question = ''Lunch?'', options = [''A'', ''B''],
     created_at = ''2024-05-01 09:00:00'', p_is_active = 1\<rparr>"

text \<open>
  The sample store after the bookings of activity 2 by user 1 and by user 5, who never
  sent \<^verbatim>\<open>/start\<close> and so has no row in \<^verbatim>\<open>users\<close>.
\<close>

definition unregistered_db :: db where
  "unregistered_db = run sample_db [Book 1 2, Book 5 2]"

text \<open>
  The form of administrator 42 after the name, the description and the date of a new
  activity were entered.
\<close>

definition admins :: "int list" where
  "admins = [42]"


section \<open>Facts about bookings\<close>

lemma filter_neg_same:
  "\<not> (\<exists>x \<in> set xs. P x) \<Longrightarrow> filter (\<lambda>x. \<not> P x) xs = xs"
  by (induction xs) auto

lemma filter_neg_shorter:
  "\<exists>x \<in> set xs. P x \<Longrightarrow> length (filter (\<lambda>x. \<not> P x) xs) < length xs"
proof (induction xs)
  case Nil
  then show ?case by simp
next
  case (Cons x xs)
  show ?case
  proof (cases "P x")
    case True
    then show ?thesis by (simp add: less_Suc_eq_le)
  next
    case False
    with Cons show ?thesis by auto
  qed
qed

lemma cancel_booking_absent:
  "\<not> is_user_booked s uid aid \<Longrightarrow> cancel_booking s uid aid = (False, s)"
  by (simp add: cancel_booking_def is_user_booked_def filter_neg_same Let_def)

lemma cancel_booking_present:
  "is_user_booked s uid aid \<Longrightarrow> fst (cancel_booking s uid aid)"
  using filter_neg_shorter [of "bookings s" "\<lambda>b. b_user_id b = uid \<and> b_activity_id b = aid"]
  by (simp add: cancel_booking_def is_user_booked_def Let_def)

lemma cancel_booking_removes:
  "\<not> is_user_booked (snd (cancel_booking s uid aid)) uid aid"
  by (simp add: cancel_booking_def is_user_booked_def Let_def)

lemma create_booking_booked:
  "fst (create_booking s uid aid) \<Longrightarrow> is_user_booked (snd (create_booking s uid aid)) uid aid"
  by (auto simp: create_booking_def is_user_booked_def Let_def split: option.splits if_splits)

lemmas store_defs = init_db_def add_user_def add_activity_def create_poll_def create_booking_def
  cancel_booking_def vote_poll_def close_poll_def get_activity_def get_poll_def
  get_booking_count_def is_user_booked_def Let_def



lemma create_booking_cases:
  "create_booking s uid aid = (False, s) \<or>
   (\<exists>row. get_activity s aid = Some row \<and> int (get_booking_count s aid) < max_capacity row \<and>
      \<not> is_user_booked s uid aid \<and>
      create_booking s uid aid =
        (True, s\<lparr>bookings := bookings s @
                  [\<lparr>booking_id = bookings_seq s + 1, b_user_id = uid, b_activity_id = aid,
                    booked_at = current_timestamp s\<rparr>],
                bookings_seq := bookings_seq s + 1\<rparr>))"
  by (auto simp: create_booking_def get_activity_def get_booking_count_def is_user_booked_def
      Let_def split: option.splits)







lemma create_booking_again:
  "is_user_booked s uid aid \<Longrightarrow> create_booking s uid aid = (False, s)"
  by (simp add: create_booking_def is_user_booked_def Let_def split: option.splits)

lemma book_activity_again:
  "is_user_booked s uid aid \<Longrightarrow> book_activity s uid aid = (AlreadyBooked, s)"
  by (simp add: book_activity_def create_booking_again)

lemma book_activity_Booked:
  "fst (book_activity s uid aid) = Booked \<Longrightarrow>
   fst (create_booking s uid aid) \<and> snd (book_activity s uid aid) = snd (create_booking s uid aid)"
  by (cases "create_booking s uid aid") (auto simp: book_activity_def split: if_splits)

lemma create_booking_free:
  "get_activity s aid = Some row \<Longrightarrow> int (get_booking_count s aid) < max_capacity row \<Longrightarrow>
   \<not> is_user_booked s uid aid \<Longrightarrow>
   create_booking s uid aid =
     (True, s\<lparr>bookings := bookings s @
               [\<lparr>booking_id = bookings_seq s + 1, b_user_id = uid, b_activity_id = aid,
                 booked_at = current_timestamp s\<rparr>],
             bookings_seq := bookings_seq s + 1\<rparr>)"
  by (simp add: create_booking_def get_activity_def get_booking_count_def is_user_booked_def
      Let_def)

lemma create_booking_pairs:
  "distinct (booking_pairs s) \<Longrightarrow> distinct (booking_pairs (snd (create_booking s uid aid)))"
  using create_booking_cases [of s uid aid]
  by (auto simp: booking_pairs_def is_user_booked_def)

lemma cancel_booking_pairs:
  "distinct (booking_pairs s) \<Longrightarrow> distinct (booking_pairs (snd (cancel_booking s uid aid)))"
  by (simp add: booking_pairs_def cancel_booking_def Let_def distinct_map_filter)

lemma exec_pairs:
  "distinct (booking_pairs s) \<Longrightarrow> distinct (booking_pairs (exec s c))"
  by (cases c)
    (simp_all add: create_booking_pairs cancel_booking_pairs,
     simp_all add: booking_pairs_def add_user_def add_activity_def create_poll_def
       vote_poll_def close_poll_def Let_def)

lemma run_pairs:
  "distinct (booking_pairs s) \<Longrightarrow> distinct (booking_pairs (run s cs))"
  by (induction cs arbitrary: s) (simp_all add: exec_pairs)

lemma distinct_map_filter_key:
  "distinct (map f xs) \<Longrightarrow> length (filter (\<lambda>x. f x = k) xs) \<le> 1"
proof (induction xs)
  case Nil
  then show ?case by simp
next
  case (Cons x xs)
  show ?case
  proof (cases "f x = k")
    case True
    with Cons.prems have "filter (\<lambda>x. f x = k) xs = []"
      by (force simp: filter_empty_conv image_iff)
    with True show ?thesis by simp
  next
    case False
    with Cons show ?thesis by simp
  qed
qed

lemma distinct_pairs_one_row:
  "distinct (booking_pairs s) \<Longrightarrow>
   length (filter (\<lambda>b. b_user_id b = uid \<and> b_activity_id b = aid) (bookings s)) \<le> 1"
  using distinct_map_filter_key
    [of "\<lambda>b. (b_user_id b, b_activity_id b)" "bookings s" "(uid, aid)"]
  by (simp add: booking_pairs_def)

subsection \<open>Capacity\<close>




subsection \<open>One booking per user and activity\<close>

text \<open>
  C2. When the user already holds a booking of the activity, \<^verbatim>\<open>create_booking\<close> returns
  \<^verbatim>\<open>False\<close>, \<^verbatim>\<open>book_activity\<close> answers "already booked", and the store is unchanged; so
  a second \<^verbatim>\<open>book_activity\<close> right after a successful one answers "already booked". If
  the (user, activity) pairs of the bookings are pairwise distinct, they are so after any
  sequence of calls, and each pair has at most one row.
\<close>

theorem one_booking_per_pair:
  "(is_user_booked s uid aid \<longrightarrow>
      create_booking s uid aid = (False, s) \<and> book_activity s uid aid = (AlreadyBooked, s)) \<and>
   (fst (book_activity s uid aid) = Booked \<longrightarrow>
      book_activity (snd (book_activity s uid aid)) uid aid =
        (AlreadyBooked, snd (book_activity s uid aid))) \<and>
   (distinct (booking_pairs s) \<longrightarrow>
      distinct (booking_pairs (run s cs)) \<and>
      length (filter (\<lambda>b. b_user_id b = uid \<and> b_activity_id b = aid) (bookings (run s cs)))
        \<le> 1)"
proof -
  have second: "book_activity (snd (book_activity s uid aid)) uid aid =
        (AlreadyBooked, snd (book_activity s uid aid))"
    if "fst (book_activity s uid aid) = Booked"
  proof -
    from that have "fst (create_booking s uid aid)"
      and eq: "snd (book_activity s uid aid) = snd (create_booking s uid aid)"
      using book_activity_Booked by blast+
    then have "is_user_booked (snd (book_activity s uid aid)) uid aid"
      by (simp add: create_booking_booked)
    then show ?thesis by (rule book_activity_again)
  qed
  have third: "distinct (booking_pairs (run s cs)) \<and>
      length (filter (\<lambda>b. b_user_id b = uid \<and> b_activity_id b = aid) (bookings (run s cs)))
        \<le> 1"
    if "distinct (booking_pairs s)"
  proof -
    from that have "distinct (booking_pairs (run s cs))"
      by (rule run_pairs)
    then show ?thesis
      using distinct_pairs_one_row by blast
  qed
  from second third show ?thesis
    using create_booking_again book_activity_again by blast
qed

theorem one_booking_per_pair_witness:
  "fst (book_activity sample_db 1 2) = Booked \<and>
   is_user_booked (snd (book_activity sample_db 1 2)) 1 2 \<and>
   distinct (booking_pairs sample_db) \<and>
   book_activity (snd (book_activity sample_db 1 2)) 1 2 =
     (AlreadyBooked, snd (book_activity sample_db 1 2)) \<and>
   create_booking (snd (book_activity sample_db 1 2)) 1 2 =
     (False, snd (book_activity sample_db 1 2)) \<and>
   distinct (booking_pairs (run sample_db rush)) \<and>
   length (filter (\<lambda>b. b_user_id b = 3 \<and> b_activity_id b = 1) (bookings (run sample_db rush)))
     \<le> 1"
proof -
  have h1: "fst (book_activity sample_db 1 2) = Booked"
    by (simp add: sample_db_def book_activity_def store_defs)
  have h2: "is_user_booked (snd (book_activity sample_db 1 2)) 1 2"
    by (simp add: sample_db_def book_activity_def store_defs)
  have h3: "distinct (booking_pairs sample_db)"
    by (simp add: sample_db_def booking_pairs_def store_defs)
  from one_booking_per_pair [of sample_db 1 2 rush] h1
    one_booking_per_pair [of sample_db 3 1 rush] h3
    one_booking_per_pair [of "snd (book_activity sample_db 1 2)" 1 2 "[]"] h2
  show ?thesis
    by blast
qed

subsection \<open>The answers of book_activity\<close>

text \<open>
  C3, as the code has it. \<^verbatim>\<open>create_booking\<close> returns a boolean, and \<^verbatim>\<open>book_activity\<close>
  has three answers: "already booked" whenever the user holds a booking of the activity;
  otherwise "all places taken" both when the activity does not exist and when it is full;
  otherwise "booked".
\<close>

theorem book_activity_answers:
  "fst (book_activity s uid aid) =
     (if is_user_booked s uid aid then AlreadyBooked
      else case get_activity s aid of
        None \<Rightarrow> AllPlacesTaken
      | Some row \<Rightarrow>
          if max_capacity row \<le> int (get_booking_count s aid) then AllPlacesTaken
          else Booked)"
proof (cases "is_user_booked s uid aid")
  case True
  then show ?thesis by (simp add: book_activity_again)
next
  case False
  then show ?thesis
    by (auto simp: book_activity_def create_booking_def is_user_booked_def get_activity_def
        get_booking_count_def Let_def split: option.splits)
qed

text \<open>
  C3 as stated fails: in \<open>full_db\<close>, user 2 gets the same answer, with the store
  unchanged, for the full activity 1 and for the activity 99, which does not exist.
\<close>

theorem book_activity_merges_not_found_and_full:
  "get_activity full_db 1 = Some workshop \<and>
   int (get_booking_count full_db 1) = max_capacity workshop \<and>
   get_activity full_db 99 = None \<and>
   book_activity full_db 2 1 = (AllPlacesTaken, full_db) \<and>
   book_activity full_db 2 99 = (AllPlacesTaken, full_db)"
  by (simp add: full_db_def sample_db_def workshop_def book_activity_def store_defs)

subsection \<open>Cancelling\<close>

text \<open>
  C4. \<^verbatim>\<open>cancel_booking\<close> for a pair with no booking returns \<^verbatim>\<open>False\<close> and the store
  unchanged; whenever it returns \<^verbatim>\<open>False\<close> the store is the one before the call; and
  after a successful \<^verbatim>\<open>create_booking\<close>, cancelling twice returns \<^verbatim>\<open>True\<close> and then
  \<^verbatim>\<open>False\<close>, the second call leaving the store as the first one left it.
\<close>

theorem cancel_booking_idempotent:
  "(\<not> is_user_booked s uid aid \<longrightarrow> cancel_booking s uid aid = (False, s)) \<and>
   (\<not> fst (cancel_booking s uid aid) \<longrightarrow> snd (cancel_booking s uid aid) = s) \<and>
   (fst (create_booking s uid aid) \<longrightarrow>
      fst (cancel_booking (snd (create_booking s uid aid)) uid aid) \<and>
      cancel_booking (snd (cancel_booking (snd (create_booking s uid aid)) uid aid)) uid aid =
        (False, snd (cancel_booking (snd (create_booking s uid aid)) uid aid)))"
proof -
  have a: "snd (cancel_booking s uid aid) = s" if "\<not> fst (cancel_booking s uid aid)"
  proof -
    from that have "\<not> is_user_booked s uid aid"
      using cancel_booking_present by blast
    then show ?thesis by (simp add: cancel_booking_absent)
  qed
  show ?thesis
    using a
    by (simp add: cancel_booking_absent cancel_booking_present cancel_booking_removes
        create_booking_booked)
qed

theorem cancel_booking_idempotent_witness:
  "\<not> is_user_booked sample_db 1 1 \<and> cancel_booking sample_db 1 1 = (False, sample_db) \<and>
   snd (cancel_booking sample_db 1 1) = sample_db \<and>
   fst (create_booking sample_db 1 1) \<and>
   fst (cancel_booking (snd (create_booking sample_db 1 1)) 1 1) \<and>
   cancel_booking (snd (cancel_booking (snd (create_booking sample_db 1 1)) 1 1)) 1 1 =
     (False, snd (cancel_booking (snd (create_booking sample_db 1 1)) 1 1))"
proof -
  have h1: "\<not> is_user_booked sample_db 1 1"
    by (simp add: sample_db_def store_defs)
  have h2: "fst (create_booking sample_db 1 1)"
    by (simp add: sample_db_def store_defs)
  from cancel_booking_idempotent [of sample_db 1 1] h1 h2 show ?thesis
    by simp
qed

subsection \<open>Book, cancel, book\<close>

text \<open>
  C5, as the code has it. After a successful \<^verbatim>\<open>create_booking\<close>, the cancellation
  succeeds and brings the activity's count back to the count before the cycle; the second
  \<^verbatim>\<open>create_booking\<close> of the same user succeeds, and the count after the full cycle is the
  count after the first booking, one more than before the cycle.
\<close>

theorem book_cancel_book:
  assumes "fst (create_booking s uid aid)"
  shows "fst (cancel_booking (snd (create_booking s uid aid)) uid aid) \<and>
         get_booking_count (snd (cancel_booking (snd (create_booking s uid aid)) uid aid)) aid
           = get_booking_count s aid \<and>
         fst (create_booking (snd (cancel_booking (snd (create_booking s uid aid)) uid aid))
                uid aid) \<and>
         get_booking_count
           (snd (create_booking (snd (cancel_booking (snd (create_booking s uid aid)) uid aid))
                   uid aid)) aid
           = get_booking_count (snd (create_booking s uid aid)) aid \<and>
         get_booking_count (snd (create_booking s uid aid)) aid = get_booking_count s aid + 1"
proof -
  define t where "t = s\<lparr>bookings := bookings s, bookings_seq := bookings_seq s + 1\<rparr>"
  from assms create_booking_cases [of s uid aid]
  obtain row where act: "get_activity s aid = Some row"
    and room: "int (get_booking_count s aid) < max_capacity row"
    and free: "\<not> is_user_booked s uid aid"
    by auto
  note s1 = create_booking_free [OF act room free]
  from free have kept:
    "filter (\<lambda>b. \<not> (b_user_id b = uid \<and> b_activity_id b = aid)) (bookings s) = bookings s"
    by (simp add: is_user_booked_def filter_neg_same)
  have s2: "cancel_booking (snd (create_booking s uid aid)) uid aid = (True, t)"
    using kept by (simp add: s1 cancel_booking_def Let_def t_def)
  have act': "get_activity t aid = Some row"
    using act by (simp add: get_activity_def t_def)
  have cnt': "get_booking_count t aid = get_booking_count s aid"
    by (simp add: get_booking_count_def t_def)
  have free': "\<not> is_user_booked t uid aid"
    using free by (simp add: is_user_booked_def t_def)
  from room have room': "int (get_booking_count t aid) < max_capacity row"
    by (simp add: cnt')
  note s3 = create_booking_free [OF act' room' free']
  have bt: "bookings t = bookings s"
    by (simp add: t_def)
  have c1: "get_booking_count (snd (create_booking s uid aid)) aid = get_booking_count s aid + 1"
    by (simp add: s1 get_booking_count_def)
  have c3: "get_booking_count (snd (create_booking t uid aid)) aid = get_booking_count s aid + 1"
    by (simp add: s3 get_booking_count_def bt)
  have b3: "fst (create_booking t uid aid)"
    by (simp add: s3)
  from c1 c3 b3 cnt' show ?thesis
    by (simp add: s2)
qed

theorem book_cancel_book_witness:
  "fst (create_booking sample_db 1 2) \<and>
   get_booking_count sample_db 2 = 0 \<and>
   get_booking_count (snd (cancel_booking (snd (create_booking sample_db 1 2)) 1 2)) 2 = 0 \<and>
   fst (create_booking (snd (cancel_booking (snd (create_booking sample_db 1 2)) 1 2)) 1 2) \<and>
   get_booking_count
     (snd (create_booking (snd (cancel_booking (snd (create_booking sample_db 1 2)) 1 2)) 1 2)) 2
     = 1"
proof -
  have h: "fst (create_booking sample_db 1 2)"
    by (simp add: sample_db_def store_defs)
  have c: "get_booking_count sample_db 2 = 0"
    by (simp add: sample_db_def store_defs)
  from book_cancel_book [OF h] h c show ?thesis
    by simp
qed

text \<open>
  C5 as stated fails: in \<open>sample_db\<close> the three calls succeed for user 1 and activity 2,
  and the count after the cycle differs from the count before it.
\<close>

theorem book_cancel_book_count_counterexample:
  "fst (create_booking sample_db 1 2) \<and>
   fst (cancel_booking (snd (create_booking sample_db 1 2)) 1 2) \<and>
   fst (create_booking (snd (cancel_booking (snd (create_booking sample_db 1 2)) 1 2)) 1 2) \<and>
   get_booking_count
     (snd (create_booking (snd (cancel_booking (snd (create_booking sample_db 1 2)) 1 2)) 1 2)) 2
     \<noteq> get_booking_count sample_db 2"
  by (simp add: sample_db_def store_defs)

section \<open>Facts about polls\<close>

lemma count_list_map_filter:
  "count_list (map f (filter P xs)) k = length (filter (\<lambda>x. P x \<and> f x = k) xs)"
  by (induction xs) auto

lemma sum_list_count_remdups:
  "sum_list (map (count_list xs) (sort (remdups xs))) = length xs"
proof -
  have "sum_list (map (count_list xs) (sort (remdups xs))) = sum (count_list xs) (set xs)"
    by (simp add: sum_list_distinct_conv_sum_set)
  also have "\<dots> = length xs"
    by (rule sum_count_set) simp_all
  finally show ?thesis .
qed

lemma tally_sum: "sum_values (get_poll_results s pid) = votes_cast s pid"
  by (simp add: sum_values_def get_poll_results_def votes_cast_def Let_def comp_def
      sum_list_count_remdups)

lemma tally_entry:
  "map_of (get_poll_results s pid) i =
     (if votes_for s pid i = 0 then None else Some (votes_for s pid i))"
proof -
  let ?voted = "map option_index (filter (\<lambda>v. v_poll_id v = pid) (poll_votes s))"
  have c: "count_list ?voted i = votes_for s pid i"
    by (simp add: count_list_map_filter votes_for_def)
  have "map_of (get_poll_results s pid) i =
      (if i \<in> set ?voted then Some (count_list ?voted i) else None)"
    by (simp add: get_poll_results_def Let_def map_of_map_restrict restrict_map_def)
  also have "\<dots> = (if count_list ?voted i = 0 then None else Some (count_list ?voted i))"
    by (simp add: count_list_0_iff)
  finally show ?thesis by (simp only: c)
qed

lemma tally_get: "dict_get (get_poll_results s pid) i 0 = votes_for s pid i"
  by (simp add: dict_get_def tally_entry)

lemma option_lines_eq:
  "0 < n \<Longrightarrow>
   option_lines results n i opts =
     Inr (map (\<lambda>(j, opt). (opt, of_nat (dict_get results (int j) 0) / of_nat n * 100,
                              dict_get results (int j) 0))
              (enumerate i opts))"
  by (induction opts arbitrary: i) (simp_all add: truediv_def Let_def)

lemma vote_poll_voted:
  "has_voted s pid uid \<Longrightarrow> vote_poll s pid uid idx = (False, s)"
  by (simp add: vote_poll_def has_voted_def)

lemma vote_poll_fresh:
  "\<not> has_voted s pid uid \<Longrightarrow>
   vote_poll s pid uid idx =
     (True,
      s\<lparr>poll_votes := poll_votes s @
           [\<lparr>vote_id = poll_votes_seq s + 1, v_poll_id = pid, v_user_id = uid,
             option_index = idx, voted_at = current_timestamp s\<rparr>],
        poll_votes_seq := poll_votes_seq s + 1\<rparr>)"
  by (simp add: vote_poll_def has_voted_def)

lemma vote_poll_has_voted:
  "has_voted (snd (vote_poll s pid uid idx)) pid uid"
  by (cases "has_voted s pid uid")
    (simp_all add: vote_poll_voted, simp add: vote_poll_fresh has_voted_def)

lemma vote_in_poll_voted:
  "has_voted s pid uid \<Longrightarrow> vote_in_poll s uid pid idx = (Inr AlreadyVoted, s)"
  by (simp add: vote_in_poll_def vote_poll_voted)

lemma vote_in_poll_store:
  "snd (vote_in_poll s uid pid idx) = snd (vote_poll s pid uid idx)"
  by (cases "vote_poll s pid uid idx")
    (simp add: vote_in_poll_def split: option.splits sum.splits)

subsection \<open>Voting without validation\<close>




subsection \<open>One vote per user and poll; the tally\<close>

text \<open>
  C7. When the user already has a vote in the poll, \<^verbatim>\<open>vote_poll\<close> returns \<^verbatim>\<open>False\<close> and
  \<^verbatim>\<open>vote_in_poll\<close> answers "already voted", the store (so the votes and the tally)
  unchanged; hence a second \<^verbatim>\<open>vote_in_poll\<close> of the same user in the same poll, whatever
  the first one answered, answers "already voted" and changes nothing. In every store the
  counts of \<^verbatim>\<open>get_poll_results\<close> add up to the number of vote rows of the poll.
\<close>

theorem single_vote_and_tally:
  "(has_voted s pid uid \<longrightarrow>
      vote_poll s pid uid idx = (False, s) \<and>
      vote_in_poll s uid pid idx = (Inr AlreadyVoted, s)) \<and>
   vote_in_poll (snd (vote_in_poll s uid pid idx)) uid pid idx' =
     (Inr AlreadyVoted, snd (vote_in_poll s uid pid idx)) \<and>
   sum_values (get_poll_results s pid) = length (filter (\<lambda>v. v_poll_id v = pid) (poll_votes s))"
proof -
  have "has_voted (snd (vote_in_poll s uid pid idx)) pid uid"
    by (simp add: vote_in_poll_store vote_poll_has_voted)
  then have "vote_in_poll (snd (vote_in_poll s uid pid idx)) uid pid idx' =
     (Inr AlreadyVoted, snd (vote_in_poll s uid pid idx))"
    by (rule vote_in_poll_voted)
  moreover have "sum_values (get_poll_results s pid) =
      length (filter (\<lambda>v. v_poll_id v = pid) (poll_votes s))"
    using tally_sum [of s pid] by (simp add: votes_cast_def)
  ultimately show ?thesis
    by (simp add: vote_poll_voted vote_in_poll_voted)
qed

theorem single_vote_and_tally_witness:
  "has_voted voted_db 1 7 \<and>
   vote_poll voted_db 1 7 0 = (False, voted_db) \<and>
   vote_in_poll voted_db 7 1 0 = (Inr AlreadyVoted, voted_db) \<and>
   fst (vote_in_poll sample_db 7 1 1) = Inr (VotedFor ''B'') \<and>
   vote_in_poll (snd (vote_in_poll sample_db 7 1 1)) 7 1 0 =
     (Inr AlreadyVoted, snd (vote_in_poll sample_db 7 1 1)) \<and>
   sum_values (get_poll_results voted_db 1) = 1"
proof -
  have h: "has_voted voted_db 1 7"
    by (simp add: voted_db_def sample_db_def has_voted_def store_defs)
  have a: "fst (vote_in_poll sample_db 7 1 1) = Inr (VotedFor ''B'')"
    by (simp add: sample_db_def vote_in_poll_def list_getitem_def store_defs)
  have n: "length (filter (\<lambda>v. v_poll_id v = 1) (poll_votes voted_db)) = 1"
    by (simp add: voted_db_def sample_db_def store_defs)
  from single_vote_and_tally [of voted_db 1 7 0] single_vote_and_tally [of sample_db 1 7 1 0]
    h a n
  show ?thesis by simp
qed

subsection \<open>What the results show\<close>

text \<open>
  C8, as the code has it. \<^verbatim>\<open>get_poll_results\<close> has an entry exactly for the option
  indices with at least one vote, holding their count. \<^verbatim>\<open>show_poll_results\<close> answers
  "poll not found" for a missing poll and "nobody has voted yet", with no line per
  option, when no vote was cast; otherwise it lists every option in the poll's order with
  its share of the votes cast and its count, zero where the tally has no entry. It never
  raises \<^verbatim>\<open>ZeroDivisionError\<close>.
\<close>

theorem poll_results_report:
  "map_of (get_poll_results s pid) i =
     (if votes_for s pid i = 0 then None else Some (votes_for s pid i)) \<and>
   show_poll_results s pid =
     (case get_poll s pid of
        None \<Rightarrow> Inr PollNotFound
      | Some poll \<Rightarrow>
          if votes_cast s pid = 0 then Inr NobodyVoted
          else Inr (OptionLines
                 (map (\<lambda>(j, opt). (opt, of_nat (votes_for s pid (int j)) / of_nat (votes_cast s pid) * 100,
                                     votes_for s pid (int j)))
                      (enumerate 0 (options poll)))
                 (votes_cast s pid))) \<and>
   show_poll_results s pid \<noteq> Inl ZeroDivisionError"
  by (simp add: tally_entry show_poll_results_def tally_sum option_lines_eq tally_get Let_def
      split: option.splits)

text \<open>
  C8 as stated fails: after the single vote for index 1 in the poll with the options A
  and B the tally is \<open>{1: 1}\<close>, with no entry for index 0; and with no vote cast the
  results show no option at all.
\<close>

theorem tally_zero_entry_counterexample:
  "get_poll voted_db 1 = Some lunch_poll \<and>
   poll_votes voted_db =
     [\<lparr>vote_id = 1, v_poll_id = 1, v_user_id = 7, option_index = 1,
       voted_at = ''2024-05-01 09:00:00''\<rparr>] \<and>
   get_poll_results voted_db 1 = [(1, 1)] \<and>
   map_of (get_poll_results voted_db 1) 0 = None \<and>
   get_poll sample_db 1 = Some lunch_poll \<and>
   votes_cast sample_db 1 = 0 \<and>
   show_poll_results sample_db 1 = Inr NobodyVoted"
  by (simp add: voted_db_def sample_db_def lunch_poll_def get_poll_results_def
      show_poll_results_def sum_values_def votes_cast_def store_defs)

section \<open>Facts about the listing of an activity's bookings\<close>

lemma join_length:
  "length (filter P xs) =
     length (concat (map (\<lambda>b. case m (k b) of None \<Rightarrow> [] | Some u \<Rightarrow> [(b, u)]) (filter P xs))) +
     length (filter (\<lambda>b. P b \<and> m (k b) = None) xs)"
  by (induction xs) (auto split: option.splits)

lemma listing_count:
  "get_booking_count s aid =
     length (get_activity_bookings s aid) +
     length (filter (\<lambda>b. b_activity_id b = aid \<and> users s (b_user_id b) = None) (bookings s))"
  unfolding get_booking_count_def get_activity_bookings_def
  by (rule join_length)

lemma listing_member:
  "(b, u) \<in> set (get_activity_bookings s aid) \<longleftrightarrow>
     b \<in> set (bookings s) \<and> b_activity_id b = aid \<and> users s (b_user_id b) = Some u"
  by (auto simp: get_activity_bookings_def split: option.splits)

lemma export_rows_length: "length (export_rows listing) = length listing"
  by (simp add: export_rows_def)

text \<open>
  C10. The booking count of an activity is the length of its listing plus the number of
  its bookings whose user has no row in \<^verbatim>\<open>users\<close>; so the two agree exactly when every
  booking of the activity has such a row. A booking without one is in no row of the
  listing, and the export of an administrator for an existing activity has one data row
  per row of the listing and reports the listing's length as the total.
\<close>

theorem listing_omits_unregistered:
  "get_booking_count s aid =
     length (get_activity_bookings s aid) +
     length (filter (\<lambda>b. b_activity_id b = aid \<and> users s (b_user_id b) = None) (bookings s)) \<and>
   (length (get_activity_bookings s aid) = get_booking_count s aid \<longleftrightarrow>
      (\<forall>b \<in> set (bookings s). b_activity_id b = aid \<longrightarrow> users s (b_user_id b) \<noteq> None)) \<and>
   (\<forall>b \<in> set (bookings s). users s (b_user_id b) = None \<longrightarrow>
      b \<notin> fst ` set (get_activity_bookings s aid)) \<and>
   (is_admin admin_ids uid \<and> get_activity s aid = Some a \<longrightarrow>
      export_bookings admin_ids uid s aid =
        Inr (Some (name a, export_rows (get_activity_bookings s aid),
                   length (get_activity_bookings s aid))) \<and>
      length (export_rows (get_activity_bookings s aid)) = length (get_activity_bookings s aid))"
proof -
  let ?orphans = "filter (\<lambda>b. b_activity_id b = aid \<and> users s (b_user_id b) = None) (bookings s)"
  have "length ?orphans = 0 \<longleftrightarrow>
      (\<forall>b \<in> set (bookings s). b_activity_id b = aid \<longrightarrow> users s (b_user_id b) \<noteq> None)"
    by (auto simp: filter_empty_conv)
  then have iff: "length (get_activity_bookings s aid) = get_booking_count s aid \<longleftrightarrow>
      (\<forall>b \<in> set (bookings s). b_activity_id b = aid \<longrightarrow> users s (b_user_id b) \<noteq> None)"
    using listing_count [of s aid] by linarith
  have omitted: "\<forall>b \<in> set (bookings s). users s (b_user_id b) = None \<longrightarrow>
      b \<notin> fst ` set (get_activity_bookings s aid)"
    by (auto simp: listing_member)
  have export: "is_admin admin_ids uid \<and> get_activity s aid = Some a \<longrightarrow>
      export_bookings admin_ids uid s aid =
        Inr (Some (name a, export_rows (get_activity_bookings s aid),
                   length (get_activity_bookings s aid)))"
    by (simp add: export_bookings_def Let_def)
  from listing_count [of s aid] iff omitted export show ?thesis
    by (simp only: export_rows_length) blast
qed

theorem listing_omits_unregistered_witness:
  "users unregistered_db 5 = None \<and>
   get_booking_count unregistered_db 2 = 2 \<and>
   length (get_activity_bookings unregistered_db 2) = 1 \<and>
   length (get_activity_bookings full_db 1) = get_booking_count full_db 1 \<and>
   get_booking_count full_db 1 = 1 \<and>
   export_bookings admins 42 unregistered_db 2 =
     Inr (Some (''Tour'', export_rows (get_activity_bookings unregistered_db 2), 1))"
proof -
  have b: "bookings unregistered_db =
      [\<lparr>booking_id = 1, b_user_id = 1, b_activity_id = 2, booked_at = ''2024-05-01 09:00:00''\<rparr>,
       \<lparr>booking_id = 2, b_user_id = 5, b_activity_id = 2, booked_at = ''2024-05-01 09:00:00''\<rparr>]"
    by (simp add: unregistered_db_def sample_db_def store_defs)
  have u: "users unregistered_db 5 = None" "users unregistered_db 1 \<noteq> None"
    by (simp_all add: unregistered_db_def sample_db_def store_defs)
  have c: "get_booking_count unregistered_db 2 = 2"
    by (simp add: get_booking_count_def b)
  have o: "length (filter (\<lambda>b. b_activity_id b = 2 \<and> users unregistered_db (b_user_id b) = None)
      (bookings unregistered_db)) = 1"
    using u by (simp add: b)
  have f: "\<forall>b \<in> set (bookings full_db). b_activity_id b = 1 \<longrightarrow> users full_db (b_user_id b) \<noteq> None"
    by (simp add: full_db_def sample_db_def store_defs)
  have fc: "get_booking_count full_db 1 = 1"
    by (simp add: full_db_def sample_db_def store_defs)
  have a: "is_admin admins 42"
    by (simp add: is_admin_def admins_def)
  have g: "get_activity unregistered_db 2 =
      Some \<lparr>activity_id = 2, name = ''Tour'', description = ''City tour'',
        date_time = ''16 May, 10:00'', max_capacity = 2, a_is_active = 1\<rparr>"
    by (simp add: unregistered_db_def sample_db_def store_defs)
  note t1 = listing_omits_unregistered
    [of unregistered_db 2 admins 42
        "\<lparr>activity_id = 2, name = ''Tour'', description = ''City tour'',
          date_time = ''16 May, 10:00'', max_capacity = 2, a_is_active = 1\<rparr>"]
  note t2 = listing_omits_unregistered [of full_db 1 admins 42 workshop]
  from t1 [THEN conjunct1] c o have l: "length (get_activity_bookings unregistered_db 2) = 1"
    by linarith
  from t2 [THEN conjunct2, THEN conjunct1] f
  have e: "length (get_activity_bookings full_db 1) = get_booking_count full_db 1"
    by blast
  from t1 [THEN conjunct2, THEN conjunct2, THEN conjunct2] a g
  have x: "export_bookings admins 42 unregistered_db 2 =
     Inr (Some (''Tour'', export_rows (get_activity_bookings unregistered_db 2), 1))"
    by (simp add: l)
  from u(1) c l e fc x show ?thesis
    by blast
qed

section \<open>Facts about the activity form\<close>








end
